theory Spec2Isabelle
  imports Complex_Main
begin

section \<open>The collapsible panel control (src/lib/core/PluginControl.ts)\<close>

text \<open>
  The class \<^verbatim>\<open>PluginControl\<close> is embedded as functions on a record \<open>world\<close> that holds
  the private fields of one control instance, the JavaScript objects those fields refer
  to, and the part of the page the methods act on.

  \<^item> Objects that can be shared by reference live in stores indexed by addresses:
    \<open>stateObjs\<close> holds \<^verbatim>\<open>PluginState\<close> objects, \<open>dataObjs\<close> holds
    \<^verbatim>\<open>Record<string, unknown>\<close> objects. An object literal or an object spread
    allocates at \<open>nextAddr\<close>.
  \<^item> Numbers are ideal real numbers: rounding of IEEE doubles is not modelled. The
    string \<^verbatim>\<open>`${x}px`\<close> is the value \<open>Px x\<close>, the empty string is \<open>Unset\<close>.
  \<^item> An event handler is an opaque callback, identified by reference (a number). Calling
    it appends a record to \<open>calls\<close>; what the callback itself does (it could throw or
    call back into the control) is outside the model.
  \<^item> Of the elements the control creates, the model keeps what the methods read or
    write afterwards: the class list, the inline style and the parent of the panel; the
    class name, the toggle button and the parent of the container.
  \<^item> Fields of a \<^verbatim>\<open>Partial<...>\<close> argument are optional; a required field that is
    present holds a value of its declared type.
\<close>

subsection \<open>Types (src/lib/core/types.ts)\<close>

type_synonym addr = nat
type_synonym handler = nat

datatype PluginControlEvent = EvCollapse | EvExpand | EvStatechange

datatype corner = TopLeft | TopRight | BottomLeft | BottomRight

datatype css_length = Unset | Px real

record PluginControlOptions =
  opt_collapsed :: bool
  opt_position :: corner
  opt_title :: string
  opt_panelWidth :: real
  opt_className :: string

text \<open>\<^verbatim>\<open>Partial<PluginControlOptions>\<close>, the argument of the constructor.\<close>

record PartialOptions =
  arg_collapsed :: "bool option"
  arg_position :: "corner option"
  arg_title :: "string option"
  arg_panelWidth :: "real option"
  arg_className :: "string option"

text \<open>\<^verbatim>\<open>PluginState\<close>: \<open>data\<close> is optional and holds a reference to a record object.\<close>

record PluginState =
  collapsed :: bool
  panelWidth :: real
  data :: "addr option"

text \<open>
  \<^verbatim>\<open>Partial<PluginState>\<close>, the argument of \<^verbatim>\<open>setState\<close>. For \<open>new_data\<close>, \<open>None\<close> is
  an absent key, \<open>Some None\<close> the key present with value \<^verbatim>\<open>undefined\<close>, and
  \<open>Some (Some d)\<close> the key present with a reference to the caller's object.
\<close>

record PartialState =
  new_collapsed :: "bool option"
  new_panelWidth :: "real option"
  new_data :: "addr option option"

text \<open>The argument a handler is called with, together with the handler called.\<close>

record call =
  call_handler :: handler
  call_type :: PluginControlEvent
  call_state :: addr

subsection \<open>Elements and geometry\<close>

record panel_el =
  classList :: "string list"
  style_width :: css_length
  style_top :: css_length
  style_bottom :: css_length
  style_left :: css_length
  style_right :: css_length
  parentNode :: "nat option"

text \<open>
  The container: \<open>toggleBtn\<close> says that \<^verbatim>\<open>querySelector('.plugin-control-toggle')\<close> finds
  the button; \<open>parentElement\<close> is the class list of the element the host appended the
  container to, if any.
\<close>

record container_el =
  className :: string
  toggleBtn :: bool
  parentElement :: "string list option"

record rect =
  rect_top :: real
  rect_bottom :: real
  rect_left :: real
  rect_right :: real
  rect_height :: real

text \<open>What \<^verbatim>\<open>getBoundingClientRect\<close> returns at the time of a call.\<close>

record layout =
  buttonRect :: rect
  mapRect :: rect

subsection \<open>The control and its surroundings\<close>

record 'v world =
  map_inst :: "nat option"
  mapContainer :: "nat option"
  container :: "container_el option"
  panel :: "panel_el option"
  options :: PluginControlOptions
  state :: addr
  eventHandlers :: "PluginControlEvent \<rightharpoonup> handler list"
  resizeHandler :: "nat option"
  mapResizeHandler :: "nat option"
  clickOutsideHandler :: "nat option"
  stateObjs :: "addr \<Rightarrow> PluginState"
  dataObjs :: "addr \<Rightarrow> (string \<rightharpoonup> 'v)"
  nextAddr :: addr
  windowResize :: "nat list"
  documentClick :: "nat list"
  mapResize :: "(nat \<times> nat) list"
  frames :: nat
  calls :: "call list"
  emitted :: "(PluginControlEvent \<times> panel_el option) list"

text \<open>
  The first ten fields are the private fields of the class (\<^verbatim>\<open>_map\<close>, \<^verbatim>\<open>_mapContainer\<close>,
  \<^verbatim>\<open>_container\<close>, \<^verbatim>\<open>_panel\<close>, \<^verbatim>\<open>_options\<close>, \<^verbatim>\<open>_state\<close>, \<^verbatim>\<open>_eventHandlers\<close> and the
  three listener closures). A \<^verbatim>\<open>Set\<close> of handlers is a list without repetition in
  insertion order, which is the order \<^verbatim>\<open>forEach\<close> visits. \<open>windowResize\<close>,
  \<open>documentClick\<close> and \<open>mapResize\<close> are the listeners registered on the window, the
  document and the maps; \<open>frames\<close> counts the callbacks passed to
  \<^verbatim>\<open>requestAnimationFrame\<close> that have not run yet. \<open>calls\<close> is the sequence of handler
  invocations so far; \<open>emitted\<close> lists, for every call of \<^verbatim>\<open>_emit\<close>, the event and the
  panel as it was at that moment. Both only record what happened: no method reads them.
\<close>

definition liveState :: "'v world \<Rightarrow> PluginState" where
  "liveState w = stateObjs w (state w)"

definition lookupData :: "'v world \<Rightarrow> PluginState \<Rightarrow> string \<Rightarrow> 'v option" where
  "lookupData w s k = (case data s of None \<Rightarrow> None | Some d \<Rightarrow> dataObjs w d k)"

definition set_add :: "'a \<Rightarrow> 'a list \<Rightarrow> 'a list" where
  "set_add x xs = (if x \<in> set xs then xs else xs @ [x])"

definition set_delete :: "'a \<Rightarrow> 'a list \<Rightarrow> 'a list" where
  "set_delete x xs = removeAll x xs"

subsection \<open>Construction\<close>

definition DEFAULT_OPTIONS :: PluginControlOptions where
  "DEFAULT_OPTIONS =
     \<lparr>opt_collapsed = True, opt_position = TopRight, opt_title = ''Plugin Control'',
      opt_panelWidth = 300, opt_className = ''''\<rparr>"

definition merge_options :: "PluginControlOptions \<Rightarrow> PartialOptions \<Rightarrow> PluginControlOptions" where
  "merge_options d a =
     \<lparr>opt_collapsed = (case arg_collapsed a of None \<Rightarrow> opt_collapsed d | Some x \<Rightarrow> x),
      opt_position = (case arg_position a of None \<Rightarrow> opt_position d | Some x \<Rightarrow> x),
      opt_title = (case arg_title a of None \<Rightarrow> opt_title d | Some x \<Rightarrow> x),
      opt_panelWidth = (case arg_panelWidth a of None \<Rightarrow> opt_panelWidth d | Some x \<Rightarrow> x),
      opt_className = (case arg_className a of None \<Rightarrow> opt_className d | Some x \<Rightarrow> x)\<rparr>"

definition no_options :: PartialOptions where
  "no_options =
     \<lparr>arg_collapsed = None, arg_position = None, arg_title = None,
      arg_panelWidth = None, arg_className = None\<rparr>"

text \<open>
  \<^verbatim>\<open>new PluginControl(options)\<close> in a page with no listeners yet: the data object
  \<^verbatim>\<open>{}\<close> is allocated at address 0 and the state object at address 1.
\<close>

definition new_PluginControl :: "PartialOptions \<Rightarrow> 'v world" where
  "new_PluginControl a =
     (let opts = merge_options DEFAULT_OPTIONS a in
      \<lparr>map_inst = None, mapContainer = None, container = None, panel = None,
       options = opts, state = 1, eventHandlers = Map.empty,
       resizeHandler = None, mapResizeHandler = None, clickOutsideHandler = None,
       stateObjs = (\<lambda>_. \<lparr>collapsed = True, panelWidth = 0, data = None\<rparr>)
         (1 := \<lparr>collapsed = opt_collapsed opts, panelWidth = opt_panelWidth opts,
                data = Some 0\<rparr>),
       dataObjs = (\<lambda>_. Map.empty),
       nextAddr = 2,
       windowResize = [], documentClick = [], mapResize = [],
       frames = 0, calls = [], emitted = []\<rparr>)"

subsection \<open>State access and events\<close>

text \<open>\<^verbatim>\<open>getState\<close>: the spread \<^verbatim>\<open>{ ...this._state }\<close> allocates a copy of the fields.\<close>

definition getState :: "'v world \<Rightarrow> addr \<times> 'v world" where
  "getState w =
     (let a = nextAddr w in
      (a, w\<lparr>stateObjs := (stateObjs w)(a := stateObjs w (state w)), nextAddr := Suc a\<rparr>))"

text \<open>
  \<^verbatim>\<open>_emit\<close>: when the registry has a set for the event (an empty one counts), one
  argument \<^verbatim>\<open>{ type, state: this.getState() }\<close> is built and every handler of the set is
  called with it, in the order of the set.
\<close>

definition notify :: "PluginControlEvent \<Rightarrow> addr \<Rightarrow> handler list \<Rightarrow> call list" where
  "notify event a handlers =
     map (\<lambda>h. \<lparr>call_handler = h, call_type = event, call_state = a\<rparr>) handlers"

definition emit :: "PluginControlEvent \<Rightarrow> 'v world \<Rightarrow> 'v world" where
  "emit event w =
     (let w0 = w\<lparr>emitted := emitted w @ [(event, panel w)]\<rparr> in
      case eventHandlers w0 event of
        None \<Rightarrow> w0
      | Some handlers \<Rightarrow>
          (case getState w0 of
             (a, w') \<Rightarrow> w'\<lparr>calls := calls w' @ notify event a handlers\<rparr>))"

text \<open>
  \<^verbatim>\<open>setState\<close>: the spread \<^verbatim>\<open>{ ...this._state, ...newState }\<close> allocates the new state
  object; a field of \<open>newState\<close> wins where it is present.
\<close>

definition merge_state :: "PluginState \<Rightarrow> PartialState \<Rightarrow> PluginState" where
  "merge_state s p =
     \<lparr>collapsed = (case new_collapsed p of None \<Rightarrow> collapsed s | Some x \<Rightarrow> x),
      panelWidth = (case new_panelWidth p of None \<Rightarrow> panelWidth s | Some x \<Rightarrow> x),
      data = (case new_data p of None \<Rightarrow> data s | Some x \<Rightarrow> x)\<rparr>"

definition setState :: "PartialState \<Rightarrow> 'v world \<Rightarrow> 'v world" where
  "setState newState w =
     (let a = nextAddr w in
      emit EvStatechange
        (w\<lparr>stateObjs := (stateObjs w)(a := merge_state (stateObjs w (state w)) newState),
           state := a, nextAddr := Suc a\<rparr>))"

text \<open>
  \<^verbatim>\<open>on\<close> creates the set of the event where there is none and adds the handler to it;
  \<^verbatim>\<open>off\<close> deletes the handler from the set of the event where there is one.
\<close>

definition on :: "PluginControlEvent \<Rightarrow> handler \<Rightarrow> 'v world \<Rightarrow> 'v world" where
  "on event h w =
     (let m = (if eventHandlers w event = None then (eventHandlers w)(event \<mapsto> [])
               else eventHandlers w)
      in case m event of
           None \<Rightarrow> w\<lparr>eventHandlers := m\<rparr>
         | Some hs \<Rightarrow> w\<lparr>eventHandlers := m(event \<mapsto> set_add h hs)\<rparr>)"

definition off :: "PluginControlEvent \<Rightarrow> handler \<Rightarrow> 'v world \<Rightarrow> 'v world" where
  "off event h w =
     (case eventHandlers w event of
        None \<Rightarrow> w
      | Some hs \<Rightarrow> w\<lparr>eventHandlers := (eventHandlers w)(event \<mapsto> set_delete h hs)\<rparr>)"

definition getMap :: "'v world \<Rightarrow> nat option" where
  "getMap w = map_inst w"

definition getContainer :: "'v world \<Rightarrow> container_el option" where
  "getContainer w = container w"

subsection \<open>Positioning\<close>

text \<open>
  \<^verbatim>\<open>_getControlPosition\<close> reads the corner off the classes of the container's parent;
  \<^verbatim>\<open>_updatePanelPosition\<close> returns early when the container, the panel, the map
  container or the toggle button is missing, and otherwise resets the four offsets of the
  panel and sets the two of the corner.
\<close>

definition getControlPosition :: "'v world \<Rightarrow> corner" where
  "getControlPosition w =
     (case container w of
        None \<Rightarrow> TopRight
      | Some c \<Rightarrow>
          (case parentElement c of
             None \<Rightarrow> TopRight
           | Some cls \<Rightarrow>
               if ''maplibregl-ctrl-top-left'' \<in> set cls then TopLeft
               else if ''maplibregl-ctrl-top-right'' \<in> set cls then TopRight
               else if ''maplibregl-ctrl-bottom-left'' \<in> set cls then BottomLeft
               else if ''maplibregl-ctrl-bottom-right'' \<in> set cls then BottomRight
               else TopRight))"

definition panelGap :: real where
  "panelGap = 5"

definition place_panel :: "layout \<Rightarrow> corner \<Rightarrow> panel_el \<Rightarrow> panel_el" where
  "place_panel g position p =
     (let buttonTop = rect_top (buttonRect g) - rect_top (mapRect g);
          buttonBottom = rect_bottom (mapRect g) - rect_bottom (buttonRect g);
          buttonLeft = rect_left (buttonRect g) - rect_left (mapRect g);
          buttonRight = rect_right (mapRect g) - rect_right (buttonRect g);
          p0 = p\<lparr>style_top := Unset, style_bottom := Unset,
                 style_left := Unset, style_right := Unset\<rparr>
      in case position of
           TopLeft \<Rightarrow>
             p0\<lparr>style_top := Px (buttonTop + rect_height (buttonRect g) + panelGap),
                style_left := Px buttonLeft\<rparr>
         | TopRight \<Rightarrow>
             p0\<lparr>style_top := Px (buttonTop + rect_height (buttonRect g) + panelGap),
                style_right := Px buttonRight\<rparr>
         | BottomLeft \<Rightarrow>
             p0\<lparr>style_bottom := Px (buttonBottom + rect_height (buttonRect g) + panelGap),
                style_left := Px buttonLeft\<rparr>
         | BottomRight \<Rightarrow>
             p0\<lparr>style_bottom := Px (buttonBottom + rect_height (buttonRect g) + panelGap),
                style_right := Px buttonRight\<rparr>)"

definition updatePanelPosition :: "layout \<Rightarrow> 'v world \<Rightarrow> 'v world" where
  "updatePanelPosition g w =
     (case container w of
        None \<Rightarrow> w
      | Some c \<Rightarrow>
          (case panel w of
             None \<Rightarrow> w
           | Some p \<Rightarrow>
               (case mapContainer w of
                  None \<Rightarrow> w
                | Some m \<Rightarrow>
                    if \<not> toggleBtn c then w
                    else w\<lparr>panel := Some (place_panel g (getControlPosition w) p)\<rparr>)))"

subsection \<open>Transitions\<close>

text \<open>
  \<^verbatim>\<open>toggle\<close> negates the flag in the live state object; with a panel it then removes the
  class and emits \<^verbatim>\<open>collapse\<close>, or adds the class, places the panel and emits
  \<^verbatim>\<open>expand\<close>; in every case it emits \<^verbatim>\<open>statechange\<close> last. The layout \<open>g\<close> is what the
  page would measure during the call.
\<close>

definition toggle :: "layout \<Rightarrow> 'v world \<Rightarrow> 'v world" where
  "toggle g w =
     (let s = stateObjs w (state w);
          w1 = w\<lparr>stateObjs := (stateObjs w)(state w := s\<lparr>collapsed := \<not> collapsed s\<rparr>)\<rparr>;
          w2 = (case panel w1 of
                  None \<Rightarrow> w1
                | Some p \<Rightarrow>
                    if collapsed (stateObjs w1 (state w1)) then
                      emit EvCollapse
                        (w1\<lparr>panel := Some (p\<lparr>classList := set_delete ''expanded'' (classList p)\<rparr>)\<rparr>)
                    else
                      emit EvExpand
                        (updatePanelPosition g
                          (w1\<lparr>panel := Some (p\<lparr>classList := set_add ''expanded'' (classList p)\<rparr>)\<rparr>)))
      in emit EvStatechange w2)"

definition expand :: "layout \<Rightarrow> 'v world \<Rightarrow> 'v world" where
  "expand g w = (if collapsed (stateObjs w (state w)) then toggle g w else w)"

definition collapse :: "layout \<Rightarrow> 'v world \<Rightarrow> 'v world" where
  "collapse g w = (if \<not> collapsed (stateObjs w (state w)) then toggle g w else w)"

subsection \<open>Attaching and detaching\<close>

definition createContainer :: "'v world \<Rightarrow> container_el" where
  "createContainer w =
     \<lparr>className = ''maplibregl-ctrl maplibregl-ctrl-group plugin-control'' @
        (if opt_className (options w) \<noteq> [] then '' '' @ opt_className (options w) else ''''),
      toggleBtn = True, parentElement = None\<rparr>"

definition createPanel :: "'v world \<Rightarrow> panel_el" where
  "createPanel w =
     \<lparr>classList = [''plugin-control-panel''],
      style_width = Px (opt_panelWidth (options w)),
      style_top = Unset, style_bottom = Unset, style_left = Unset, style_right = Unset,
      parentNode = None\<rparr>"

text \<open>
  The three closures get the identifiers \<open>nextAddr\<close>, \<open>nextAddr + 1\<close> and
  \<open>nextAddr + 2\<close>, in the order the source creates them.
\<close>

definition setupEventListeners :: "'v world \<Rightarrow> 'v world" where
  "setupEventListeners w =
     (let c = nextAddr w; r = Suc c; m = Suc r;
          w1 = w\<lparr>clickOutsideHandler := Some c, documentClick := documentClick w @ [c]\<rparr>;
          w2 = w1\<lparr>resizeHandler := Some r, windowResize := windowResize w1 @ [r]\<rparr>;
          w3 = w2\<lparr>mapResizeHandler := Some m\<rparr>;
          w4 = (case map_inst w3 of
                  None \<Rightarrow> w3
                | Some mp \<Rightarrow> w3\<lparr>mapResize := mapResize w3 @ [(mp, m)]\<rparr>)
      in w4\<lparr>nextAddr := Suc m\<rparr>)"

text \<open>
  \<^verbatim>\<open>onAdd(map)\<close>: a map is identified by a number, and so is its container element.
  The returned element is the new value of \<open>container\<close>.
\<close>

definition onAdd :: "nat \<Rightarrow> 'v world \<Rightarrow> 'v world" where
  "onAdd mp w =
     (let w1 = w\<lparr>map_inst := Some mp, mapContainer := Some mp\<rparr>;
          w2 = w1\<lparr>container := Some (createContainer w1)\<rparr>;
          p = (createPanel w2)\<lparr>parentNode := Some mp\<rparr>;
          w3 = setupEventListeners (w2\<lparr>panel := Some p\<rparr>)
      in if \<not> collapsed (stateObjs w3 (state w3)) then
           w3\<lparr>panel := Some (p\<lparr>classList := set_add ''expanded'' (classList p)\<rparr>),
              frames := Suc (frames w3)\<rparr>
         else w3)"

text \<open>
  \<^verbatim>\<open>onRemove\<close>: each listener is removed if its closure is there (the one on the map
  only if the map is there too), the panel and the container are taken out of their
  parents if they have one, and the references and the registry are cleared.
\<close>

definition onRemove :: "'v world \<Rightarrow> 'v world" where
  "onRemove w =
     (let w1 = (case resizeHandler w of
                  None \<Rightarrow> w
                | Some r \<Rightarrow> w\<lparr>windowResize := removeAll r (windowResize w),
                             resizeHandler := None\<rparr>);
          w2 = (case mapResizeHandler w1 of
                  None \<Rightarrow> w1
                | Some m \<Rightarrow>
                    (case map_inst w1 of
                       None \<Rightarrow> w1
                     | Some mp \<Rightarrow> w1\<lparr>mapResize := removeAll (mp, m) (mapResize w1),
                                     mapResizeHandler := None\<rparr>));
          w3 = (case clickOutsideHandler w2 of
                  None \<Rightarrow> w2
                | Some c \<Rightarrow> w2\<lparr>documentClick := removeAll c (documentClick w2),
                             clickOutsideHandler := None\<rparr>);
          w4 = (case panel w3 of
                  None \<Rightarrow> w3
                | Some p \<Rightarrow>
                    (case parentNode p of
                       None \<Rightarrow> w3
                     | Some _ \<Rightarrow> w3\<lparr>panel := Some (p\<lparr>parentNode := None\<rparr>)\<rparr>));
          w5 = (case container w4 of
                  None \<Rightarrow> w4
                | Some c \<Rightarrow>
                    (case parentElement c of
                       None \<Rightarrow> w4
                     | Some _ \<Rightarrow> w4\<lparr>container := Some (c\<lparr>parentElement := None\<rparr>)\<rparr>))
      in w5\<lparr>map_inst := None, mapContainer := None, container := None, panel := None,
            eventHandlers := Map.empty\<rparr>)"

text \<open>
  The callback passed to \<^verbatim>\<open>requestAnimationFrame\<close>, and the bodies of the three
  listeners. \<open>inside\<close> says that the click target lies in the container or in the panel.
\<close>

definition runFrame :: "layout \<Rightarrow> 'v world \<Rightarrow> 'v world" where
  "runFrame g w = (if frames w = 0 then w else updatePanelPosition g (w\<lparr>frames := frames w - 1\<rparr>))"

definition resizeListener :: "layout \<Rightarrow> 'v world \<Rightarrow> 'v world" where
  "resizeListener g w =
     (if \<not> collapsed (stateObjs w (state w)) then updatePanelPosition g w else w)"

definition clickOutsideListener :: "bool \<Rightarrow> layout \<Rightarrow> 'v world \<Rightarrow> 'v world" where
  "clickOutsideListener inside g w =
     (if container w \<noteq> None \<and> panel w \<noteq> None \<and> \<not> inside then collapse g w else w)"

subsection \<open>What the surroundings do\<close>

text \<open>
  The host appends the element returned by \<^verbatim>\<open>onAdd\<close> to one of its corner elements;
  a caller evaluates an object literal for a data mapping, assigns to a property of a
  data object it holds, or overwrites the fields of a state object it holds.
\<close>

definition hostAppend :: "string list \<Rightarrow> 'v world \<Rightarrow> 'v world" where
  "hostAppend cls w =
     (case container w of
        None \<Rightarrow> w
      | Some c \<Rightarrow> w\<lparr>container := Some (c\<lparr>parentElement := Some cls\<rparr>)\<rparr>)"

definition allocData :: "(string \<rightharpoonup> 'v) \<Rightarrow> 'v world \<Rightarrow> addr \<times> 'v world" where
  "allocData m w =
     (let d = nextAddr w in (d, w\<lparr>dataObjs := (dataObjs w)(d := m), nextAddr := Suc d\<rparr>))"

definition writeData :: "addr \<Rightarrow> string \<Rightarrow> 'v \<Rightarrow> 'v world \<Rightarrow> 'v world" where
  "writeData d k v w = w\<lparr>dataObjs := (dataObjs w)(d := (dataObjs w d)(k \<mapsto> v))\<rparr>"

definition writeState :: "addr \<Rightarrow> PluginState \<Rightarrow> 'v world \<Rightarrow> 'v world" where
  "writeState a s w = w\<lparr>stateObjs := (stateObjs w)(a := s)\<rparr>"

subsection \<open>Observations\<close>

text \<open>
  The handlers registered for an event, the calls an operation added, how often a handler
  was called, and who was called with which event.
\<close>

definition handlersOf :: "'v world \<Rightarrow> PluginControlEvent \<Rightarrow> handler list" where
  "handlersOf w e = (case eventHandlers w e of None \<Rightarrow> [] | Some hs \<Rightarrow> hs)"

definition new_calls :: "'v world \<Rightarrow> 'v world \<Rightarrow> call list" where
  "new_calls w w' = drop (length (calls w)) (calls w')"

definition invocations :: "handler \<Rightarrow> call list \<Rightarrow> nat" where
  "invocations h cs = length (filter (\<lambda>c. call_handler c = h) cs)"

definition heard :: "call list \<Rightarrow> (handler \<times> PluginControlEvent) list" where
  "heard cs = map (\<lambda>c. (call_handler c, call_type c)) cs"

text \<open>The panel is shown when it exists and carries the class \<^verbatim>\<open>expanded\<close>.\<close>

definition expanded_class :: "'v world \<Rightarrow> bool" where
  "expanded_class w =
     (case panel w of None \<Rightarrow> False | Some p \<Rightarrow> ''expanded'' \<in> set (classList p))"

text \<open>
  \<open>attached\<close>: the references \<^verbatim>\<open>_updatePanelPosition\<close> needs are all there, as \<^verbatim>\<open>onAdd\<close>
  leaves them. \<open>detached\<close>: none of the references \<^verbatim>\<open>onRemove\<close> releases is there.
\<close>

definition attached :: "'v world \<Rightarrow> bool" where
  "attached w =
     ((case container w of None \<Rightarrow> False | Some c \<Rightarrow> toggleBtn c) \<and>
      panel w \<noteq> None \<and> mapContainer w \<noteq> None)"

definition detached :: "'v world \<Rightarrow> bool" where
  "detached w =
     (resizeHandler w = None \<and> clickOutsideHandler w = None \<and> map_inst w = None \<and>
      mapContainer w = None \<and> container w = None \<and> panel w = None)"

text \<open>The flag \<open>collapsed\<close> agrees with what the panel shows.\<close>

definition mirrors :: "'v world \<Rightarrow> bool" where
  "mirrors w =
     (case panel w of
        None \<Rightarrow> True
      | Some p \<Rightarrow> (''expanded'' \<in> set (classList p)) = (\<not> collapsed (liveState w)))"

text \<open>The live state object has been allocated.\<close>

definition allocated :: "'v world \<Rightarrow> bool" where
  "allocated w = (state w < nextAddr w)"

subsection \<open>Runs\<close>

text \<open>
  What can happen to a control: calls of its public methods, the host placing its
  container, and the callbacks it registered being run.
\<close>

datatype action =
    OnAdd nat | OnRemove | GetState | SetState PartialState
  | Toggle layout | Expand layout | Collapse layout
  | On PluginControlEvent handler | Off PluginControlEvent handler
  | HostAppend "string list" | RunFrame layout | Resize layout | ClickOutside bool layout

fun step :: "action \<Rightarrow> 'v world \<Rightarrow> 'v world" where
  "step (OnAdd m) w = onAdd m w"
| "step OnRemove w = onRemove w"
| "step GetState w = snd (getState w)"
| "step (SetState p) w = setState p w"
| "step (Toggle g) w = toggle g w"
| "step (Expand g) w = expand g w"
| "step (Collapse g) w = collapse g w"
| "step (On e h) w = on e h w"
| "step (Off e h) w = off e h w"
| "step (HostAppend cls) w = hostAppend cls w"
| "step (RunFrame g) w = runFrame g w"
| "step (Resize g) w = resizeListener g w"
| "step (ClickOutside inside g) w = clickOutsideListener inside g w"

fun run :: "action list \<Rightarrow> 'v world \<Rightarrow> 'v world" where
  "run [] w = w"
| "run (a # as) w = run as (step a w)"

fun sets_collapsed :: "action \<Rightarrow> bool" where
  "sets_collapsed (SetState p) = (new_collapsed p \<noteq> None)"
| "sets_collapsed _ = False"

subsection \<open>Concrete inputs\<close>

definition demo_layout :: layout where
  "demo_layout =
     \<lparr>buttonRect = \<lparr>rect_top = 10, rect_bottom = 39, rect_left = 950, rect_right = 979,
                    rect_height = 29\<rparr>,
      mapRect = \<lparr>rect_top = 0, rect_bottom = 600, rect_left = 0, rect_right = 1000,
                 rect_height = 600\<rparr>\<rparr>"

definition fresh_control :: "nat world" where
  "fresh_control = new_PluginControl no_options"

definition open_control :: "nat world" where
  "open_control = new_PluginControl (no_options\<lparr>arg_collapsed := Some False\<rparr>)"

definition listening :: "nat world" where
  "listening = on EvStatechange 7 fresh_control"

text \<open>
  A control with one handler per event, added to map 0 and placed by the host in the
  top right corner.
\<close>

definition demo_world :: "nat world" where
  "demo_world =
     hostAppend [''maplibregl-ctrl-top-right'']
       (onAdd 0 (on EvCollapse 9 (on EvExpand 8 (on EvStatechange 7 fresh_control))))"

definition demo_container :: container_el where
  "demo_container =
     \<lparr>className = ''maplibregl-ctrl maplibregl-ctrl-group plugin-control'', toggleBtn = True,
      parentElement = Some [''maplibregl-ctrl-top-right'']\<rparr>"

definition demo_panel :: panel_el where
  "demo_panel =
     \<lparr>classList = [''plugin-control-panel''], style_width = Px 300,
      style_top = Unset, style_bottom = Unset, style_left = Unset, style_right = Unset,
      parentNode = Some 0\<rparr>"

text \<open>The same control with offsets left over from a placement in the bottom left corner.\<close>

definition stale_panel :: panel_el where
  "stale_panel = demo_panel\<lparr>style_bottom := Px 595, style_left := Px 950\<rparr>"

definition stale_world :: "nat world" where
  "stale_world = demo_world\<lparr>panel := Some stale_panel\<rparr>"

definition demo_state :: PluginState where
  "demo_state = \<lparr>collapsed = False, panelWidth = 1, data = None\<rparr>"

definition demo_call :: call where
  "demo_call = \<lparr>call_handler = 7, call_type = EvStatechange, call_state = 2\<rparr>"

definition width400 :: PartialState where
  "width400 = \<lparr>new_collapsed = None, new_panelWidth = Some 400, new_data = None\<rparr>"

definition only_data :: "addr \<Rightarrow> PartialState" where
  "only_data d = \<lparr>new_collapsed = None, new_panelWidth = None, new_data = Some (Some d)\<rparr>"

definition only_collapsed :: "bool \<Rightarrow> PartialState" where
  "only_collapsed c = \<lparr>new_collapsed = Some c, new_panelWidth = None, new_data = None\<rparr>"

section \<open>Basic facts\<close>

lemmas build_defs =
  fresh_control_def new_PluginControl_def merge_options_def DEFAULT_OPTIONS_def no_options_def
  on_def onAdd_def hostAppend_def setupEventListeners_def createContainer_def createPanel_def
  set_add_def Let_def

lemmas run_defs =
  setState_def emit_def getState_def merge_state_def allocData_def writeData_def writeState_def
  notify_def liveState_def lookupData_def only_data_def only_collapsed_def

subsection \<open>Emission changes the record of calls and allocates the copy, nothing else\<close>

lemma emit_fields:
  "map_inst (emit e w) = map_inst w"
  "mapContainer (emit e w) = mapContainer w"
  "container (emit e w) = container w"
  "panel (emit e w) = panel w"
  "options (emit e w) = options w"
  "state (emit e w) = state w"
  "eventHandlers (emit e w) = eventHandlers w"
  "resizeHandler (emit e w) = resizeHandler w"
  "mapResizeHandler (emit e w) = mapResizeHandler w"
  "clickOutsideHandler (emit e w) = clickOutsideHandler w"
  "dataObjs (emit e w) = dataObjs w"
  "windowResize (emit e w) = windowResize w"
  "documentClick (emit e w) = documentClick w"
  "mapResize (emit e w) = mapResize w"
  "frames (emit e w) = frames w"
  "emitted (emit e w) = emitted w @ [(e, panel w)]"
  by (simp_all add: emit_def getState_def Let_def split: option.splits)

lemma emit_calls:
  "calls (emit e w) = calls w @ notify e (nextAddr w) (handlersOf w e)"
  by (simp add: emit_def getState_def Let_def handlersOf_def notify_def split: option.splits)

lemma emit_liveState: "liveState (emit e w) = liveState w"
  by (simp add: emit_def getState_def Let_def liveState_def split: option.splits)

lemma emit_stateObjs:
  "stateObjs (emit e w) a =
     (if eventHandlers w e \<noteq> None \<and> a = nextAddr w then stateObjs w (state w)
      else stateObjs w a)"
  by (simp add: emit_def getState_def Let_def split: option.splits)

lemma emit_nextAddr:
  "nextAddr (emit e w) = (if eventHandlers w e = None then nextAddr w else Suc (nextAddr w))"
  by (simp add: emit_def getState_def Let_def split: option.splits)

lemma emit_handlersOf: "handlersOf (emit e w) e' = handlersOf w e'"
  by (simp add: handlersOf_def emit_fields)

lemma heard_notify: "heard (notify e a hs) = map (\<lambda>h. (h, e)) hs"
  by (simp add: heard_def notify_def comp_def)

lemma invocations_notify: "invocations h (notify e a hs) = length (filter (\<lambda>x. x = h) hs)"
  by (simp add: invocations_def notify_def filter_map comp_def)

lemma getState_copy:
  "getState w =
     (nextAddr w,
      w\<lparr>stateObjs := (stateObjs w)(nextAddr w := liveState w), nextAddr := Suc (nextAddr w)\<rparr>)"
  by (simp add: getState_def Let_def liveState_def)

subsection \<open>Positioning touches the panel only\<close>

lemma upd_fields:
  "container (updatePanelPosition g w) = container w"
  "mapContainer (updatePanelPosition g w) = mapContainer w"
  "state (updatePanelPosition g w) = state w"
  "stateObjs (updatePanelPosition g w) = stateObjs w"
  "eventHandlers (updatePanelPosition g w) = eventHandlers w"
  "calls (updatePanelPosition g w) = calls w"
  "emitted (updatePanelPosition g w) = emitted w"
  "nextAddr (updatePanelPosition g w) = nextAddr w"
  by (simp_all add: updatePanelPosition_def split: option.splits)

lemma upd_panel:
  "panel (updatePanelPosition g w) =
     (case panel w of
        None \<Rightarrow> None
      | Some p \<Rightarrow>
          if attached w then Some (place_panel g (getControlPosition w) p) else Some p)"
  by (simp add: updatePanelPosition_def attached_def split: option.splits)

lemma place_panel_classList: "classList (place_panel g pos p) = classList p"
  by (simp add: place_panel_def Let_def split: corner.splits)

lemma set_add_mem: "x \<in> set (set_add x xs)"
  by (simp add: set_add_def)

lemma set_delete_mem: "x \<notin> set (set_delete x xs)"
  by (simp add: set_delete_def)

lemma distinct_set_add: "distinct xs \<Longrightarrow> distinct (set_add x xs)"
  by (simp add: set_add_def)

lemma count_set_add: "distinct hs \<Longrightarrow> length (filter (\<lambda>x. x = h) (set_add h hs)) = 1"
  by (induction hs) (auto simp: set_add_def split: if_splits)

subsection \<open>The two branches of \<open>toggle\<close>\<close>

lemma toggle_expanding:
  assumes "panel w = Some p" and "collapsed (liveState w)"
  shows "toggle g w =
     emit EvStatechange (emit EvExpand (updatePanelPosition g
       (w\<lparr>stateObjs := (stateObjs w)(state w := (stateObjs w (state w))\<lparr>collapsed := False\<rparr>),
          panel := Some (p\<lparr>classList := set_add ''expanded'' (classList p)\<rparr>)\<rparr>)))"
  using assms by (simp add: toggle_def Let_def liveState_def)

lemma toggle_collapsing:
  assumes "panel w = Some p" and "\<not> collapsed (liveState w)"
  shows "toggle g w =
     emit EvStatechange (emit EvCollapse
       (w\<lparr>stateObjs := (stateObjs w)(state w := (stateObjs w (state w))\<lparr>collapsed := True\<rparr>),
          panel := Some (p\<lparr>classList := set_delete ''expanded'' (classList p)\<rparr>)\<rparr>))"
  using assms by (simp add: toggle_def Let_def liveState_def)

lemma toggle_handlers: "eventHandlers (toggle g w) = eventHandlers w"
  by (simp add: toggle_def Let_def emit_fields upd_fields split: option.splits)

lemma toggle_state: "state (toggle g w) = state w"
  by (simp add: toggle_def Let_def emit_fields upd_fields split: option.splits)

lemma toggle_nextAddr: "nextAddr w \<le> nextAddr (toggle g w)"
  by (simp add: toggle_def Let_def emit_fields emit_nextAddr upd_fields split: option.splits)

text \<open>Operations write to the live state object and to new objects only.\<close>

lemma toggle_frame:
  assumes "a < nextAddr w" and "a \<noteq> state w"
  shows "stateObjs (toggle g w) a = stateObjs w a"
  using assms
  by (simp add: toggle_def Let_def emit_fields emit_stateObjs emit_nextAddr upd_fields
      split: option.splits)

lemma setState_frame:
  assumes "a < nextAddr w"
  shows "stateObjs (setState p w) a = stateObjs w a"
  using assms
  by (simp add: setState_def Let_def emit_fields emit_stateObjs emit_nextAddr)

subsection \<open>Registration\<close>

lemma on_handlersOf: "handlersOf (on e h w) e = set_add h (handlersOf w e)"
  by (simp add: on_def handlersOf_def Let_def split: option.splits)

lemma on_handlersOf_other: "e' \<noteq> e \<Longrightarrow> handlersOf (on e h w) e' = handlersOf w e'"
  by (simp add: on_def handlersOf_def Let_def split: option.splits)

lemma off_handlersOf:
  "handlersOf (off e h w) e' =
     (if e' = e then set_delete h (handlersOf w e) else handlersOf w e')"
  by (simp add: off_def handlersOf_def set_delete_def split: option.splits)

lemma off_absent: "h \<notin> set (handlersOf w e) \<Longrightarrow> off e h w = w"
  by (auto simp: off_def handlersOf_def set_delete_def map_upd_triv split: option.splits)

subsection \<open>Detaching\<close>

lemma onRemove_fields:
  "resizeHandler (onRemove w) = None"
  "clickOutsideHandler (onRemove w) = None"
  "map_inst (onRemove w) = None"
  "mapContainer (onRemove w) = None"
  "container (onRemove w) = None"
  "panel (onRemove w) = None"
  "eventHandlers (onRemove w) = Map.empty"
  by (simp_all add: onRemove_def Let_def split: option.splits)

lemma onRemove_detached:
  assumes "resizeHandler w = None" "clickOutsideHandler w = None" "map_inst w = None"
    "mapContainer w = None" "container w = None" "panel w = None"
  shows "onRemove w = w\<lparr>eventHandlers := Map.empty\<rparr>"
  using assms by (simp add: onRemove_def Let_def split: option.splits)

lemma onRemove_twice: "onRemove (onRemove w) = onRemove w"
proof -
  have "onRemove (onRemove w) = (onRemove w)\<lparr>eventHandlers := Map.empty\<rparr>"
    by (rule onRemove_detached) (simp_all add: onRemove_fields)
  also have "\<dots> = onRemove w"
    using onRemove_fields(7) [of w] by simp
  finally show ?thesis .
qed

lemma onRemove_fresh: "onRemove (new_PluginControl a) = new_PluginControl a"
  by (simp add: onRemove_def new_PluginControl_def Let_def)

section \<open>What holds along every run\<close>

subsection \<open>The live state object stays allocated\<close>

lemma toggle_allocated: "allocated w \<Longrightarrow> allocated (toggle g w)"
  using toggle_nextAddr [of w g] by (simp add: allocated_def toggle_state)

lemma setState_allocated: "allocated (setState p w)"
  by (simp add: allocated_def setState_def Let_def emit_fields emit_nextAddr)

lemma onAdd_allocated: "allocated w \<Longrightarrow> allocated (onAdd m w)"
  by (simp add: allocated_def onAdd_def setupEventListeners_def Let_def)

lemma onRemove_allocated: "allocated w \<Longrightarrow> allocated (onRemove w)"
  by (simp add: allocated_def onRemove_def Let_def split: option.splits)

lemma step_allocated:
  assumes "allocated w"
  shows "allocated (step a w)"
proof (cases a)
  case (OnAdd m)
  with assms show ?thesis by (simp add: onAdd_allocated)
next
  case OnRemove
  with assms show ?thesis by (simp add: onRemove_allocated)
next
  case GetState
  with assms show ?thesis by (simp add: allocated_def getState_def Let_def)
next
  case (SetState p)
  then show ?thesis by (simp add: setState_allocated)
next
  case (Toggle g)
  with assms show ?thesis by (simp add: toggle_allocated)
next
  case (Expand g)
  with assms show ?thesis by (simp add: expand_def toggle_allocated)
next
  case (Collapse g)
  with assms show ?thesis by (simp add: collapse_def toggle_allocated)
next
  case (On e h)
  with assms show ?thesis by (simp add: allocated_def on_def Let_def split: option.splits)
next
  case (Off e h)
  with assms show ?thesis by (simp add: allocated_def off_def split: option.splits)
next
  case (HostAppend cls)
  with assms show ?thesis by (simp add: allocated_def hostAppend_def split: option.splits)
next
  case (RunFrame g)
  with assms show ?thesis by (simp add: allocated_def runFrame_def upd_fields)
next
  case (Resize g)
  with assms show ?thesis by (simp add: allocated_def resizeListener_def upd_fields)
next
  case (ClickOutside i g)
  with assms show ?thesis by (simp add: clickOutsideListener_def collapse_def toggle_allocated)
qed

lemma run_allocated: "allocated w \<Longrightarrow> allocated (run as w)"
  by (induction as arbitrary: w) (simp_all add: step_allocated)

lemma reachable_allocated: "allocated (run as (new_PluginControl a))"
  by (rule run_allocated) (simp add: allocated_def new_PluginControl_def Let_def)

subsection \<open>Every handler set stays a set\<close>

lemma on_distinct: "distinct (handlersOf w e') \<Longrightarrow> distinct (handlersOf (on e h w) e')"
  by (cases "e' = e") (simp_all add: on_handlersOf on_handlersOf_other distinct_set_add)

lemma off_distinct: "distinct (handlersOf w e') \<Longrightarrow> distinct (handlersOf (off e h w) e')"
  by (auto simp: off_handlersOf set_delete_def distinct_removeAll)

lemma step_handlers:
  "eventHandlers (step a w) =
     (case a of
        On e h \<Rightarrow> eventHandlers (on e h w)
      | Off e h \<Rightarrow> eventHandlers (off e h w)
      | OnRemove \<Rightarrow> Map.empty
      | _ \<Rightarrow> eventHandlers w)"
  by (cases a)
     (simp_all add: onRemove_fields toggle_handlers expand_def collapse_def emit_fields upd_fields
       setState_def getState_def hostAppend_def runFrame_def resizeListener_def
       clickOutsideListener_def onAdd_def setupEventListeners_def Let_def split: option.splits)

lemma step_distinct:
  assumes "distinct (handlersOf w e')"
  shows "distinct (handlersOf (step a w) e')"
proof (cases a)
  case (On e h)
  with assms show ?thesis by (simp add: on_distinct)
next
  case (Off e h)
  with assms show ?thesis by (simp add: off_distinct)
qed (insert assms, simp_all add: handlersOf_def step_handlers del: step.simps)

lemma run_distinct: "distinct (handlersOf w e) \<Longrightarrow> distinct (handlersOf (run as w) e)"
  by (induction as arbitrary: w) (simp_all add: step_distinct)

lemma reachable_distinct: "distinct (handlersOf (run as (new_PluginControl a)) e)"
  by (rule run_distinct) (simp add: handlersOf_def new_PluginControl_def Let_def)

subsection \<open>Which operations keep the flag and the panel in step\<close>

lemma toggle_mirrors: "mirrors (toggle g w)"
  by (simp add: mirrors_def toggle_def Let_def emit_fields emit_stateObjs liveState_def upd_panel
      upd_fields place_panel_classList set_add_mem set_delete_mem split: option.splits)

lemma onAdd_mirrors: "mirrors (onAdd m w)"
  by (simp add: mirrors_def onAdd_def setupEventListeners_def createPanel_def Let_def
      liveState_def set_add_def split: option.splits)

lemma expand_mirrors: "mirrors w \<Longrightarrow> mirrors (expand g w)"
  by (simp add: expand_def toggle_mirrors)

lemma collapse_mirrors: "mirrors w \<Longrightarrow> mirrors (collapse g w)"
  by (simp add: collapse_def toggle_mirrors)

lemma upd_mirrors: "mirrors w \<Longrightarrow> mirrors (updatePanelPosition g w)"
  by (simp add: mirrors_def upd_panel liveState_def upd_fields place_panel_classList
      split: option.splits)

lemma setState_mirrors:
  assumes "mirrors w" and "new_collapsed p = None \<or> new_collapsed p = Some (collapsed (liveState w))"
  shows "mirrors (setState p w)"
  using assms
  by (auto simp add: mirrors_def setState_def Let_def emit_fields emit_stateObjs liveState_def
      merge_state_def split: option.splits)

lemma step_mirrors:
  assumes "mirrors w" and "\<not> sets_collapsed a"
  shows "mirrors (step a w)"
proof (cases a)
  case (OnAdd m)
  then show ?thesis by (simp add: onAdd_mirrors)
next
  case OnRemove
  then show ?thesis by (simp add: mirrors_def onRemove_fields)
next
  case GetState
  with assms show ?thesis
    by (simp add: mirrors_def getState_def Let_def liveState_def split: option.splits)
next
  case (SetState p)
  with assms show ?thesis by (simp add: setState_mirrors)
next
  case (Toggle g)
  then show ?thesis by (simp add: toggle_mirrors)
next
  case (Expand g)
  with assms show ?thesis by (simp add: expand_mirrors)
next
  case (Collapse g)
  with assms show ?thesis by (simp add: collapse_mirrors)
next
  case (On e h)
  with assms show ?thesis
    by (simp add: mirrors_def on_def Let_def liveState_def split: option.splits)
next
  case (Off e h)
  with assms show ?thesis
    by (simp add: mirrors_def off_def Let_def liveState_def split: option.splits)
next
  case (HostAppend cls)
  with assms show ?thesis
    by (simp add: mirrors_def hostAppend_def liveState_def split: option.splits)
next
  case (RunFrame g)
  have "mirrors (w\<lparr>frames := frames w - 1\<rparr>)"
    using assms by (simp add: mirrors_def liveState_def split: option.splits)
  then have "mirrors (updatePanelPosition g (w\<lparr>frames := frames w - 1\<rparr>))"
    by (rule upd_mirrors)
  with RunFrame assms show ?thesis
    by (simp add: runFrame_def)
next
  case (Resize g)
  with assms show ?thesis by (simp add: resizeListener_def upd_mirrors)
next
  case (ClickOutside i g)
  with assms show ?thesis by (simp add: clickOutsideListener_def collapse_mirrors)
qed

text \<open>\<^verbatim>\<open>onAdd\<close> leaves the control attached.\<close>

lemma onAdd_attached: "attached (onAdd m w)"
  by (simp add: attached_def onAdd_def setupEventListeners_def createContainer_def Let_def
      split: option.splits)

subsection \<open>The concrete inputs\<close>

lemma fresh_facts:
  "panel fresh_control = None"
  "collapsed (liveState fresh_control)"
  "handlersOf fresh_control e = []"
  "emitted fresh_control = []"
  "calls fresh_control = []"
  "state fresh_control < nextAddr fresh_control"
  by (simp_all add: build_defs liveState_def handlersOf_def)

lemma fresh_detached: "detached fresh_control"
  by (simp add: detached_def build_defs)

lemma demo_facts:
  "container demo_world = Some demo_container"
  "panel demo_world = Some demo_panel"
  "mapContainer demo_world = Some 0"
  "collapsed (liveState demo_world)"
  "handlersOf demo_world EvStatechange = [7]"
  "handlersOf demo_world EvExpand = [8]"
  "handlersOf demo_world EvCollapse = [9]"
  "emitted demo_world = []"
  "calls demo_world = []"
  "state demo_world < nextAddr demo_world"
  "getControlPosition demo_world = TopRight"
  by (simp_all add: demo_world_def build_defs liveState_def handlersOf_def demo_container_def
      demo_panel_def getControlPosition_def)

lemma demo_attached: "attached demo_world"
  by (simp add: attached_def demo_facts) (simp add: demo_container_def)

lemma stale_facts:
  "container stale_world = Some demo_container"
  "panel stale_world = Some stale_panel"
  "mapContainer stale_world = Some 0"
  "getControlPosition stale_world = TopRight"
  using demo_facts by (simp_all add: stale_world_def getControlPosition_def)

lemma listening_facts:
  "allocated listening"
  "new_calls listening (emit EvStatechange listening) = [demo_call]"
  "panel listening = None"
  "collapsed (liveState listening)"
  "handlersOf listening EvStatechange = [7]"
  "emitted listening = []"
  by (simp_all add: listening_def build_defs new_calls_def emit_def getState_def notify_def
      demo_call_def allocated_def liveState_def handlersOf_def)

lemma open_facts:
  "\<not> collapsed (liveState open_control)"
  by (simp add: open_control_def build_defs liveState_def)

section \<open>The claims\<close>

subsection \<open>C1: what \<open>setState\<close> merges\<close>

text \<open>
  C1 as stated says that the data mapping of the argument is merged into the old one, so
  that old keys survive. The spread in \<^verbatim>\<open>setState\<close> is one level deep at the state, not
  at \<open>data\<close>: after \<^verbatim>\<open>setState({data: {a: 1}})\<close> and then
  \<^verbatim>\<open>setState({data: {b: 2}})\<close> the key \<^verbatim>\<open>a\<close> is gone, although the second argument
  does not mention it.
\<close>

theorem setState_data_counterexample:
  "case allocData [''a'' \<mapsto> 1] fresh_control of
     (d1, w1) \<Rightarrow>
       (case allocData [''b'' \<mapsto> 2] (setState (only_data d1) w1) of
          (d2, w3) \<Rightarrow>
            lookupData w3 (liveState w3) ''a'' = Some 1 \<and>
            dataObjs w3 d2 ''a'' = None \<and>
            lookupData (setState (only_data d2) w3)
              (liveState (setState (only_data d2) w3)) ''a'' = None)"
  by (simp add: build_defs run_defs)

text \<open>
  C1, amended: for every control and every partial state \<open>p\<close>, \<^verbatim>\<open>setState(p)\<close> replaces
  each top-level field that \<open>p\<close> holds and keeps the others; when \<open>p\<close> holds a data
  mapping, the resulting data is that mapping itself, the same object with exactly its
  keys; and \<^verbatim>\<open>statechange\<close> is emitted once, to every handler registered for it.
\<close>

theorem setState_shallow_merge:
  "collapsed (liveState (setState p w)) =
     (case new_collapsed p of None \<Rightarrow> collapsed (liveState w) | Some c \<Rightarrow> c) \<and>
   panelWidth (liveState (setState p w)) =
     (case new_panelWidth p of None \<Rightarrow> panelWidth (liveState w) | Some x \<Rightarrow> x) \<and>
   data (liveState (setState p w)) =
     (case new_data p of None \<Rightarrow> data (liveState w) | Some d \<Rightarrow> d) \<and>
   lookupData (setState p w) (liveState (setState p w)) =
     (case new_data p of
        None \<Rightarrow> lookupData w (liveState w)
      | Some None \<Rightarrow> (\<lambda>k. None)
      | Some (Some d) \<Rightarrow> dataObjs w d) \<and>
   emitted (setState p w) = emitted w @ [(EvStatechange, panel w)] \<and>
   heard (new_calls w (setState p w)) =
     map (\<lambda>h. (h, EvStatechange)) (handlersOf w EvStatechange)"
  by (auto simp add: setState_def Let_def emit_fields emit_calls emit_stateObjs new_calls_def
      heard_notify handlersOf_def liveState_def merge_state_def lookupData_def fun_eq_iff
      split: option.splits)

subsection \<open>C2: the flag and the panel\<close>

text \<open>
  C2 says that after every completed operation, \<^verbatim>\<open>setState\<close> included, the flag
  \<open>collapsed\<close> equals what the panel shows. \<^verbatim>\<open>toggle\<close>, \<^verbatim>\<open>expand\<close>, \<^verbatim>\<open>collapse\<close> and
  \<^verbatim>\<open>onAdd\<close> keep the two in step (\<open>step_mirrors\<close>), and the field is documented as
  "whether the control panel is currently collapsed". \<^verbatim>\<open>setState\<close> writes the flag and
  leaves the panel alone: on a new control added to a map,
  \<^verbatim>\<open>setState({collapsed: false})\<close> yields a state that says expanded and a panel without
  the class \<^verbatim>\<open>expanded\<close>, and \<^verbatim>\<open>expand()\<close> then does nothing.
\<close>

theorem setState_collapsed_desynchronises:
  "attached (onAdd 0 fresh_control) \<and> mirrors (onAdd 0 fresh_control) \<and>
   \<not> collapsed (liveState (setState (only_collapsed False) (onAdd 0 fresh_control))) \<and>
   \<not> expanded_class (setState (only_collapsed False) (onAdd 0 fresh_control)) \<and>
   \<not> mirrors (setState (only_collapsed False) (onAdd 0 fresh_control)) \<and>
   expand demo_layout (setState (only_collapsed False) (onAdd 0 fresh_control)) =
     setState (only_collapsed False) (onAdd 0 fresh_control)"
  by (simp add: build_defs run_defs attached_def mirrors_def expanded_class_def expand_def)

subsection \<open>C3: the two transitions of \<open>toggle\<close>\<close>

text \<open>
  C3: on an attached, collapsed control \<^verbatim>\<open>toggle()\<close> clears the flag, gives the panel the
  class \<^verbatim>\<open>expanded\<close> and emits \<^verbatim>\<open>expand\<close> and then \<^verbatim>\<open>statechange\<close>, once each: every
  handler of \<^verbatim>\<open>expand\<close> is called once, then every handler of \<^verbatim>\<open>statechange\<close>. The
  panel is already placed when \<^verbatim>\<open>expand\<close> is emitted. A second \<^verbatim>\<open>toggle()\<close> sets the
  flag, removes the class and emits \<^verbatim>\<open>collapse\<close> and then \<^verbatim>\<open>statechange\<close>.
\<close>

theorem toggle_state_machine:
  assumes att: "attached w" and p: "panel w = Some p" and c: "collapsed (liveState w)"
  shows "let shown = place_panel g (getControlPosition w)
                       (p\<lparr>classList := set_add ''expanded'' (classList p)\<rparr>);
             hidden = shown\<lparr>classList := set_delete ''expanded'' (classList shown)\<rparr>;
             w' = toggle g w; w'' = toggle g' w'
         in \<not> collapsed (liveState w') \<and> panel w' = Some shown \<and> expanded_class w' \<and>
            emitted w' = emitted w @ [(EvExpand, Some shown), (EvStatechange, Some shown)] \<and>
            heard (new_calls w w') =
              map (\<lambda>h. (h, EvExpand)) (handlersOf w EvExpand) @
              map (\<lambda>h. (h, EvStatechange)) (handlersOf w EvStatechange) \<and>
            collapsed (liveState w'') \<and> panel w'' = Some hidden \<and> \<not> expanded_class w'' \<and>
            emitted w'' = emitted w' @ [(EvCollapse, Some hidden), (EvStatechange, Some hidden)] \<and>
            heard (new_calls w' w'') =
              map (\<lambda>h. (h, EvCollapse)) (handlersOf w EvCollapse) @
              map (\<lambda>h. (h, EvStatechange)) (handlersOf w EvStatechange)"
proof -
  define shown where "shown = place_panel g (getControlPosition w)
                       (p\<lparr>classList := set_add ''expanded'' (classList p)\<rparr>)"
  define hidden where "hidden = shown\<lparr>classList := set_delete ''expanded'' (classList shown)\<rparr>"
  define w0 where "w0 = w\<lparr>stateObjs := (stateObjs w)(state w := (stateObjs w (state w))\<lparr>collapsed := False\<rparr>),
          panel := Some (p\<lparr>classList := set_add ''expanded'' (classList p)\<rparr>)\<rparr>"
  define w' where "w' = toggle g w"
  define w'' where "w'' = toggle g' w'"
  have att0: "attached w0" using att by (simp add: attached_def w0_def)
  have pos0: "getControlPosition w0 = getControlPosition w"
    by (simp add: getControlPosition_def w0_def)
  have w'_eq: "w' = emit EvStatechange (emit EvExpand (updatePanelPosition g w0))"
    unfolding w'_def w0_def by (rule toggle_expanding [OF p c])
  have panel0: "panel w0 = Some (p\<lparr>classList := set_add ''expanded'' (classList p)\<rparr>)"
    by (simp add: w0_def)
  have panel1: "panel (updatePanelPosition g w0) = Some shown"
    using att0 panel0 by (simp add: upd_panel pos0 shown_def)
  have panel': "panel w' = Some shown"
    by (simp add: w'_eq emit_fields panel1)
  have live': "\<not> collapsed (liveState w')"
    by (simp add: w'_eq emit_liveState) (simp add: liveState_def upd_fields w0_def)
  have cls: "''expanded'' \<in> set (classList shown)"
    by (simp add: shown_def place_panel_classList set_add_mem)
  have em': "emitted w' = emitted w @ [(EvExpand, Some shown), (EvStatechange, Some shown)]"
    by (simp add: w'_eq emit_fields panel1 upd_fields) (simp add: w0_def)
  have hs0: "handlersOf (updatePanelPosition g w0) e = handlersOf w e" for e
    by (simp add: handlersOf_def upd_fields w0_def)
  have calls': "heard (new_calls w w') =
              map (\<lambda>h. (h, EvExpand)) (handlersOf w EvExpand) @
              map (\<lambda>h. (h, EvStatechange)) (handlersOf w EvStatechange)"
    by (simp add: w'_eq new_calls_def emit_calls emit_handlersOf hs0 upd_fields heard_def
          notify_def comp_def)
       (simp add: w0_def)
  have hs': "handlersOf w' e = handlersOf w e" for e
    by (simp add: handlersOf_def w'_def toggle_handlers)
  define w1 where "w1 = w'\<lparr>stateObjs := (stateObjs w')(state w' := (stateObjs w' (state w'))\<lparr>collapsed := True\<rparr>),
          panel := Some hidden\<rparr>"
  have w''_eq: "w'' = emit EvStatechange (emit EvCollapse w1)"
    unfolding w''_def w1_def hidden_def by (rule toggle_collapsing [OF panel' live'])
  have panel'': "panel w'' = Some hidden"
    by (simp add: w''_eq emit_fields w1_def)
  have live'': "collapsed (liveState w'')"
    by (simp add: w''_eq emit_liveState) (simp add: liveState_def w1_def)
  have ncls: "''expanded'' \<notin> set (classList hidden)"
    by (simp add: hidden_def set_delete_mem)
  have em'': "emitted w'' = emitted w' @ [(EvCollapse, Some hidden), (EvStatechange, Some hidden)]"
    by (simp add: w''_eq emit_fields w1_def)
  have hs1: "handlersOf w1 e = handlersOf w e" for e
    using hs' [of e] by (simp add: handlersOf_def w1_def)
  have calls'': "heard (new_calls w' w'') =
              map (\<lambda>h. (h, EvCollapse)) (handlersOf w EvCollapse) @
              map (\<lambda>h. (h, EvStatechange)) (handlersOf w EvStatechange)"
    by (simp add: w''_eq new_calls_def emit_calls emit_handlersOf hs1 heard_def notify_def comp_def)
       (simp add: w1_def)
  show ?thesis
    unfolding Let_def shown_def [symmetric] hidden_def [symmetric] w'_def [symmetric]
      w''_def [symmetric]
    using live' panel' cls em' calls' live'' panel'' ncls em'' calls''
    by (simp add: expanded_class_def)
qed

theorem toggle_state_machine_witness:
  "attached demo_world \<and> panel demo_world = Some demo_panel \<and>
   collapsed (liveState demo_world) \<and>
   expanded_class (toggle demo_layout demo_world) \<and>
   heard (new_calls demo_world (toggle demo_layout demo_world)) =
     [(8, EvExpand), (7, EvStatechange)] \<and>
   map fst (emitted (toggle demo_layout demo_world)) = [EvExpand, EvStatechange] \<and>
   collapsed (liveState (toggle demo_layout (toggle demo_layout demo_world))) \<and>
   heard (new_calls (toggle demo_layout demo_world)
            (toggle demo_layout (toggle demo_layout demo_world))) =
     [(9, EvCollapse), (7, EvStatechange)]"
  using toggle_state_machine [OF demo_attached demo_facts(2) demo_facts(4), of demo_layout demo_layout]
    demo_attached demo_facts
  by (simp add: Let_def)

subsection \<open>C4: where the panel is placed\<close>

text \<open>
  C4: when the container with its toggle button, the panel and the map container are
  there, \<^verbatim>\<open>_updatePanelPosition\<close> computes \<open>top\<close>, \<open>bottom\<close>, \<open>left\<close> and \<open>right\<close> of
  the button relative to the map container and leaves the panel with exactly two of the
  four offsets set, as the detected corner demands, with a gap of 5 pixels; the other
  two are unset whatever they were before. Nothing else of the panel changes.
\<close>

theorem updatePanelPosition_places:
  assumes "container w = Some c" and "toggleBtn c" and "panel w = Some p"
    and "mapContainer w = Some m"
  shows "panel (updatePanelPosition g w) =
     Some (let top = rect_top (buttonRect g) - rect_top (mapRect g);
               bottom = rect_bottom (mapRect g) - rect_bottom (buttonRect g);
               left = rect_left (buttonRect g) - rect_left (mapRect g);
               right = rect_right (mapRect g) - rect_right (buttonRect g);
               toggleHeight = rect_height (buttonRect g)
           in case getControlPosition w of
                TopLeft \<Rightarrow>
                  p\<lparr>style_top := Px (top + toggleHeight + 5), style_bottom := Unset,
                    style_left := Px left, style_right := Unset\<rparr>
              | TopRight \<Rightarrow>
                  p\<lparr>style_top := Px (top + toggleHeight + 5), style_bottom := Unset,
                    style_left := Unset, style_right := Px right\<rparr>
              | BottomLeft \<Rightarrow>
                  p\<lparr>style_top := Unset, style_bottom := Px (bottom + toggleHeight + 5),
                    style_left := Px left, style_right := Unset\<rparr>
              | BottomRight \<Rightarrow>
                  p\<lparr>style_top := Unset, style_bottom := Px (bottom + toggleHeight + 5),
                    style_left := Unset, style_right := Px right\<rparr>)"
  using assms
  by (simp add: updatePanelPosition_def place_panel_def panelGap_def Let_def split: corner.splits)

theorem updatePanelPosition_places_witness:
  "container stale_world = Some demo_container \<and> toggleBtn demo_container \<and>
   panel stale_world = Some stale_panel \<and> mapContainer stale_world = Some 0 \<and>
   style_bottom stale_panel = Px 595 \<and> style_left stale_panel = Px 950 \<and>
   panel (updatePanelPosition demo_layout stale_world) =
     Some (demo_panel\<lparr>style_top := Px 44, style_right := Px 21\<rparr>)"
  using updatePanelPosition_places [of stale_world demo_container stale_panel 0 demo_layout]
    stale_facts
  by (simp add: demo_container_def demo_layout_def Let_def demo_panel_def stale_panel_def)

subsection \<open>C5: setting the panel width\<close>

text \<open>
  C5: \<^verbatim>\<open>setState({panelWidth: 400})\<close> emits \<^verbatim>\<open>statechange\<close> and nothing else, so only
  the handlers of \<^verbatim>\<open>statechange\<close> are called, once each; afterwards \<^verbatim>\<open>getState()\<close>
  returns a state with \<open>panelWidth\<close> 400 and the flag \<open>collapsed\<close> it had before.
\<close>

theorem setState_panelWidth:
  "emitted (setState width400 w) = emitted w @ [(EvStatechange, panel w)] \<and>
   heard (new_calls w (setState width400 w)) =
     map (\<lambda>h. (h, EvStatechange)) (handlersOf w EvStatechange) \<and>
   (case getState (setState width400 w) of
      (a, w') \<Rightarrow>
        panelWidth (stateObjs w' a) = 400 \<and>
        collapsed (stateObjs w' a) = collapsed (liveState w)) \<and>
   panelWidth (liveState (setState width400 w)) = 400 \<and>
   collapsed (liveState (setState width400 w)) = collapsed (liveState w) \<and>
   panel (setState width400 w) = panel w"
  by (simp add: setState_def Let_def emit_fields emit_calls emit_stateObjs emit_nextAddr
      new_calls_def heard_notify handlersOf_def getState_def liveState_def merge_state_def
      width400_def)

subsection \<open>C6: registering a handler twice\<close>

text \<open>
  C6: registering the same handler for the same event a second time changes nothing, and
  an emission of that event then calls the handler exactly once, as after a single
  registration. The handlers of the event form a set, as they do along every run
  (\<open>reachable_distinct\<close>).
\<close>

theorem on_twice_idempotent:
  assumes "distinct (handlersOf w e)"
  shows "on e h (on e h w) = on e h w \<and>
         invocations h (new_calls (on e h (on e h w)) (emit e (on e h (on e h w)))) = 1 \<and>
         invocations h (new_calls (on e h w) (emit e (on e h w))) = 1"
proof -
  have idem: "on e h (on e h w) = on e h w"
    by (simp add: on_def Let_def set_add_def split: option.splits)
  have once: "invocations h (new_calls (on e h w) (emit e (on e h w))) = 1"
    using assms
    by (simp add: new_calls_def emit_calls invocations_notify on_handlersOf count_set_add)
  show ?thesis using idem once by simp
qed

theorem on_twice_idempotent_witness:
  "distinct (handlersOf fresh_control EvExpand) \<and>
   on EvExpand 8 (on EvExpand 8 fresh_control) = on EvExpand 8 fresh_control \<and>
   invocations 8 (new_calls (on EvExpand 8 (on EvExpand 8 fresh_control))
                    (emit EvExpand (on EvExpand 8 (on EvExpand 8 fresh_control)))) = 1"
  using on_twice_idempotent [of fresh_control EvExpand 8] fresh_facts by simp

subsection \<open>C7: operations that have nothing to do\<close>

text \<open>
  C7: the source has no \<^verbatim>\<open>throw\<close>, and in the four situations of the claim every
  reference that may be missing is read behind a test or an optional chain, which is the
  \<open>None\<close> branch of the embedding; so the operations return, and they do nothing there.
  \<^verbatim>\<open>off\<close> with a handler that is not registered leaves everything as it is; an emission
  to no handler calls nobody and changes neither the state, the panel nor the registry;
  \<^verbatim>\<open>_updatePanelPosition\<close> without one of the elements it needs leaves everything as it
  is; a second \<^verbatim>\<open>onRemove\<close> changes nothing, and \<^verbatim>\<open>onRemove\<close> on a control that is not
  attached only clears the registry, which on a new control is empty already.
\<close>

theorem defensive_noops:
  "(h \<notin> set (handlersOf w e) \<longrightarrow> off e h w = w) \<and>
   (handlersOf w e = [] \<longrightarrow>
      calls (emit e w) = calls w \<and> liveState (emit e w) = liveState w \<and>
      panel (emit e w) = panel w \<and> eventHandlers (emit e w) = eventHandlers w) \<and>
   (\<not> attached w \<longrightarrow> updatePanelPosition g w = w) \<and>
   onRemove (onRemove w) = onRemove w \<and>
   (detached w \<longrightarrow> onRemove w = w\<lparr>eventHandlers := Map.empty\<rparr>) \<and>
   onRemove (new_PluginControl a) = new_PluginControl a"
proof -
  have "\<not> attached w \<Longrightarrow> updatePanelPosition g w = w"
    by (auto simp: updatePanelPosition_def attached_def split: option.splits)
  moreover have "detached w \<Longrightarrow> onRemove w = w\<lparr>eventHandlers := Map.empty\<rparr>"
    by (rule onRemove_detached) (simp_all add: detached_def)
  moreover have "handlersOf w e = [] \<Longrightarrow> calls (emit e w) = calls w"
    by (simp add: emit_calls notify_def)
  ultimately show ?thesis
    using off_absent [of h w e] onRemove_twice [of w] onRemove_fresh [of a]
    by (simp add: emit_liveState emit_fields)
qed

theorem defensive_noops_witness:
  "7 \<notin> set (handlersOf fresh_control EvExpand) \<and>
   off EvExpand 7 fresh_control = fresh_control \<and>
   handlersOf fresh_control EvExpand = [] \<and>
   calls (emit EvExpand fresh_control) = calls fresh_control \<and>
   \<not> attached fresh_control \<and>
   updatePanelPosition demo_layout fresh_control = fresh_control \<and>
   detached fresh_control \<and>
   onRemove fresh_control = fresh_control\<lparr>eventHandlers := Map.empty\<rparr> \<and>
   onRemove (onRemove demo_world) = onRemove demo_world"
proof -
  have a: "\<not> attached fresh_control"
    by (simp add: attached_def fresh_facts)
  have h: "7 \<notin> set (handlersOf fresh_control EvExpand)"
    and e: "handlersOf fresh_control EvExpand = []"
    by (simp_all add: fresh_facts)
  show ?thesis
    using defensive_noops [of 7 fresh_control EvExpand demo_layout no_options]
      defensive_noops [of 7 demo_world EvExpand demo_layout no_options] fresh_detached a h e
    by blast
qed

subsection \<open>C8: what a handler and \<open>getState\<close> hand out\<close>

text \<open>
  C8 as stated says that changes made through the copy, also to its data mapping, never
  reach the live state. The copy is one level deep, so it holds the reference to the
  very data object of the live state: a handler of \<^verbatim>\<open>statechange\<close> that assigns to
  \<^verbatim>\<open>event.state.data.k\<close> changes the data of the control.
\<close>

theorem snapshot_shares_data_counterexample:
  "let w1 = setState (only_collapsed True) listening in
   case calls w1 of
     [c] \<Rightarrow>
       (case data (stateObjs w1 (call_state c)) of
          None \<Rightarrow> False
        | Some d \<Rightarrow>
            lookupData w1 (liveState w1) ''k'' = None \<and>
            lookupData (writeData d ''k'' 5 w1) (liveState (writeData d ''k'' 5 w1)) ''k'' =
              Some 5)
   | _ \<Rightarrow> False"
  by (simp add: listening_def build_defs run_defs)

text \<open>
  C8, amended: \<^verbatim>\<open>getState()\<close> returns, and every handler receives with the type of the
  event, a newly allocated object that has the fields of the live state. Overwriting
  that object does not change the live state, and \<^verbatim>\<open>toggle\<close> and \<^verbatim>\<open>setState\<close> on the
  control do not change that object. The data mapping is not copied: the object and the
  live state refer to the same one, so a write to it through the copy shows in the live
  state.
\<close>

theorem snapshot_shallow_copy:
  assumes wf: "allocated w"
  shows "(case getState w of
            (a, w') \<Rightarrow>
              a \<noteq> state w' \<and> stateObjs w' a = liveState w \<and> liveState w' = liveState w \<and>
              liveState (writeState a s w') = liveState w' \<and>
              stateObjs (toggle g w') a = stateObjs w' a \<and>
              stateObjs (setState p w') a = stateObjs w' a \<and>
              (case data (stateObjs w' a) of
                 None \<Rightarrow> data (liveState w') = None
               | Some d \<Rightarrow>
                   lookupData (writeData d k v w') (liveState (writeData d k v w')) k = Some v)) \<and>
         (\<forall>c \<in> set (new_calls w (emit e w)).
              call_type c = e \<and> call_state c \<noteq> state (emit e w) \<and>
              stateObjs (emit e w) (call_state c) = liveState (emit e w) \<and>
              liveState (writeState (call_state c) s (emit e w)) = liveState (emit e w) \<and>
              stateObjs (toggle g (emit e w)) (call_state c) =
                stateObjs (emit e w) (call_state c) \<and>
              stateObjs (setState p (emit e w)) (call_state c) =
                stateObjs (emit e w) (call_state c))"
proof -
  define a where "a = nextAddr w"
  define w' where "w' = w\<lparr>stateObjs := (stateObjs w)(a := liveState w), nextAddr := Suc a\<rparr>"
  have lw: "state w < nextAddr w"
    using wf by (simp add: allocated_def)
  have gs: "getState w = (a, w')"
    by (simp add: getState_copy a_def w'_def)
  have ne: "a \<noteq> state w'" and lt: "a < nextAddr w'"
    using lw by (simp_all add: a_def w'_def)
  have copy: "stateObjs w' a = liveState w"
    by (simp add: w'_def)
  have live: "liveState w' = liveState w"
    using lw by (simp add: liveState_def w'_def a_def)
  have wr: "liveState (writeState a s w') = liveState w'"
    using ne by (simp add: writeState_def liveState_def)
  have shared: "(case data (stateObjs w' a) of
                 None \<Rightarrow> data (liveState w') = None
               | Some d \<Rightarrow>
                   lookupData (writeData d k v w') (liveState (writeData d k v w')) k = Some v)"
  proof (cases "data (liveState w)")
    case None
    then show ?thesis by (simp add: copy live)
  next
    case (Some d)
    have "liveState (writeData d k v w') = liveState w'"
      by (simp add: writeData_def liveState_def)
    then show ?thesis
      using Some by (simp add: copy live lookupData_def) (simp add: writeData_def)
  qed
  have first: "(case getState w of
            (a, w') \<Rightarrow>
              a \<noteq> state w' \<and> stateObjs w' a = liveState w \<and> liveState w' = liveState w \<and>
              liveState (writeState a s w') = liveState w' \<and>
              stateObjs (toggle g w') a = stateObjs w' a \<and>
              stateObjs (setState p w') a = stateObjs w' a \<and>
              (case data (stateObjs w' a) of
                 None \<Rightarrow> data (liveState w') = None
               | Some d \<Rightarrow>
                   lookupData (writeData d k v w') (liveState (writeData d k v w')) k = Some v))"
    using ne copy live wr shared toggle_frame [OF lt ne] setState_frame [OF lt]
    by (simp add: gs)
  have second: "call_type c = e \<and> call_state c \<noteq> state (emit e w) \<and>
              stateObjs (emit e w) (call_state c) = liveState (emit e w) \<and>
              liveState (writeState (call_state c) s (emit e w)) = liveState (emit e w) \<and>
              stateObjs (toggle g (emit e w)) (call_state c) =
                stateObjs (emit e w) (call_state c) \<and>
              stateObjs (setState p (emit e w)) (call_state c) =
                stateObjs (emit e w) (call_state c)"
    if c: "c \<in> set (new_calls w (emit e w))" for c
  proof -
    from c have mem: "c \<in> set (notify e (nextAddr w) (handlersOf w e))"
      by (simp add: new_calls_def emit_calls)
    then have ty: "call_type c = e" and st: "call_state c = a"
      by (auto simp: notify_def a_def)
    from mem have some: "eventHandlers w e \<noteq> None"
      by (cases "eventHandlers w e") (simp_all add: notify_def handlersOf_def)
    have ne2: "a \<noteq> state (emit e w)"
      using lw by (simp add: emit_fields a_def)
    have lt2: "a < nextAddr (emit e w)"
      using some by (simp add: emit_nextAddr a_def)
    have copy2: "stateObjs (emit e w) a = liveState (emit e w)"
      using some by (simp add: emit_liveState) (simp add: emit_stateObjs a_def liveState_def)
    have wr2: "liveState (writeState a s (emit e w)) = liveState (emit e w)"
      using ne2 by (simp add: writeState_def liveState_def)
    show ?thesis
      using ty ne2 copy2 wr2 toggle_frame [OF lt2 ne2] setState_frame [OF lt2]
      by (simp add: st)
  qed
  show ?thesis using first second by blast
qed

theorem snapshot_shallow_copy_witness:
  "allocated listening \<and>
   new_calls listening (emit EvStatechange listening) = [demo_call] \<and>
   call_type demo_call = EvStatechange \<and>
   call_state demo_call \<noteq> state (emit EvStatechange listening) \<and>
   stateObjs (emit EvStatechange listening) (call_state demo_call) =
     liveState (emit EvStatechange listening) \<and>
   liveState (writeState (call_state demo_call) demo_state (emit EvStatechange listening)) =
     liveState (emit EvStatechange listening) \<and>
   stateObjs (toggle demo_layout (emit EvStatechange listening)) (call_state demo_call) =
     stateObjs (emit EvStatechange listening) (call_state demo_call) \<and>
   stateObjs (setState width400 (emit EvStatechange listening)) (call_state demo_call) =
     stateObjs (emit EvStatechange listening) (call_state demo_call)"
  using snapshot_shallow_copy [OF listening_facts(1),
      of demo_state demo_layout width400 "''k''" 5 EvStatechange]
    listening_facts
  by simp

subsection \<open>C9: \<open>expand\<close> and \<open>collapse\<close>\<close>

text \<open>
  C9: on a control that is already expanded \<^verbatim>\<open>expand()\<close> changes nothing at all, so no
  event is emitted and no handler is called, and \<^verbatim>\<open>collapse()\<close> is \<^verbatim>\<open>toggle()\<close>; on a
  control that is already collapsed it is the other way round.
\<close>

theorem expand_collapse_noop_or_toggle:
  "(\<not> collapsed (liveState w) \<longrightarrow> expand g w = w \<and> collapse g w = toggle g w) \<and>
   (collapsed (liveState w) \<longrightarrow> collapse g w = w \<and> expand g w = toggle g w)"
  by (simp add: expand_def collapse_def liveState_def)

theorem expand_collapse_noop_or_toggle_witness:
  "collapsed (liveState fresh_control) \<and>
   collapse demo_layout fresh_control = fresh_control \<and>
   expand demo_layout fresh_control = toggle demo_layout fresh_control \<and>
   \<not> collapsed (liveState open_control) \<and>
   expand demo_layout open_control = open_control \<and>
   collapse demo_layout open_control = toggle demo_layout open_control"
  using expand_collapse_noop_or_toggle [of fresh_control demo_layout]
    expand_collapse_noop_or_toggle [of open_control demo_layout] fresh_facts(2) open_facts
  by simp

subsection \<open>C10: \<open>toggle\<close> on a control without a panel\<close>

text \<open>
  C10: when there is no panel, \<^verbatim>\<open>toggle()\<close> flips the flag and emits \<^verbatim>\<open>statechange\<close>
  only, so the handlers of \<^verbatim>\<open>statechange\<close> are the only ones called; there is still no
  panel afterwards, the container is as before and no frame callback is scheduled.
\<close>

theorem toggle_unattached:
  assumes "panel w = None"
  shows "collapsed (liveState (toggle g w)) = (\<not> collapsed (liveState w)) \<and>
         emitted (toggle g w) = emitted w @ [(EvStatechange, None)] \<and>
         heard (new_calls w (toggle g w)) =
           map (\<lambda>h. (h, EvStatechange)) (handlersOf w EvStatechange) \<and>
         panel (toggle g w) = None \<and> container (toggle g w) = container w \<and>
         frames (toggle g w) = frames w"
  using assms
  by (simp add: toggle_def Let_def emit_fields emit_calls emit_stateObjs new_calls_def
      heard_notify handlersOf_def liveState_def)

theorem toggle_unattached_witness:
  "panel listening = None \<and> collapsed (liveState listening) \<and>
   \<not> collapsed (liveState (toggle demo_layout listening)) \<and>
   emitted (toggle demo_layout listening) = [(EvStatechange, None)] \<and>
   heard (new_calls listening (toggle demo_layout listening)) = [(7, EvStatechange)] \<and>
   panel (toggle demo_layout listening) = None"
  using toggle_unattached [of listening demo_layout] listening_facts by simp

end
